theory Spec2Isabelle
  imports Main
begin

section \<open>Values of the platform\<close>

text \<open>
  A JavaScript \<^verbatim>\<open>Date\<close> holds a time value: whole milliseconds since the epoch, or NaN for
  an invalid date (\<open>None\<close> here). The constructor \<^verbatim>\<open>new Date(string)\<close> is a built-in: the
  functions below take it as the parameter \<open>newDate\<close>.
\<close>

datatype js_date = Date (getTime: "int option")

text \<open>
  \<^verbatim>\<open>a > b\<close> on two dates compares the time values as numbers; a comparison with NaN is false.
\<close>

definition date_gt :: "js_date \<Rightarrow> js_date \<Rightarrow> bool" where
  "date_gt a b =
     (case getTime a of
        None \<Rightarrow> False
      | Some x \<Rightarrow> (case getTime b of None \<Rightarrow> False | Some y \<Rightarrow> y < x))"

text \<open>
  A number obtained by \<^verbatim>\<open>Number.parseFloat\<close> is kept symbolic: it is identified by the
  string it was parsed from (\<^verbatim>\<open>Number.parseFloat(undefined)\<close> is NaN). The code never
  computes with these numbers, it only prints them.
\<close>

datatype js_number = ParseFloat string | NaN

definition Number_parseFloat :: "string option \<Rightarrow> js_number" where
  "Number_parseFloat v = (case v of None \<Rightarrow> NaN | Some s \<Rightarrow> ParseFloat s)"

text \<open>
  Truthiness of a property that is a string or \<^verbatim>\<open>undefined\<close>: only \<^verbatim>\<open>undefined\<close> and
  the empty string are falsy.
\<close>

definition truthy :: "string option \<Rightarrow> bool" where
  "truthy v = (case v of None \<Rightarrow> False | Some s \<Rightarrow> s \<noteq> [])"

section \<open>Payloads\<close>

text \<open>
  The commit resource, as far as \<^verbatim>\<open>getCommitDate\<close> reads it: \<^verbatim>\<open>commit.author.date\<close> and
  \<^verbatim>\<open>commit.committer.date\<close>, two date strings.
\<close>

record Signature =
  date :: string

record Commit =
  author :: Signature
  committer :: Signature

record commit_resource =
  commit :: Commit

text \<open>The compare resource: \<^verbatim>\<open>ahead_by\<close> and \<^verbatim>\<open>commits\<close>; a commit of the list is opaque.\<close>

record 'c GithubApiCompare =
  ahead_by :: int
  commits :: "'c list"

record 'c compare_result =
  totalMissingCommits :: int
  missingCommits :: "'c list"

section \<open>Requests, responses, errors\<close>

text \<open>
  The configuration \<^verbatim>\<open>req\<close> hands to axios: \<^verbatim>\<open>{ method, url, params, data: body }\<close>.
  \<^verbatim>\<open>params\<close> and \<^verbatim>\<open>body\<close> are optional objects.
\<close>

record axios_config =
  http_method :: string
  url :: string
  params :: "(string \<times> string) list option"
  body :: "(string \<times> string) list option"

text \<open>
  An \<^verbatim>\<open>AxiosResponse\<close>. axios always sets \<^verbatim>\<open>headers\<close> to an object (header names in lower
  case, values strings), so the guard \<^verbatim>\<open>resp.headers &&\<close> of \<^verbatim>\<open>checkForRateLimitInfo\<close>
  always passes and is not modelled.
\<close>

record 'b response =
  status :: nat
  statusText :: string
  headers :: "string \<rightharpoonup> string"
  data :: 'b

text \<open>
  A thrown value, as far as the code looks at it: \<^verbatim>\<open>error.message\<close>, whether
  \<^verbatim>\<open>error.request\<close> is truthy, and \<^verbatim>\<open>error.response\<close>. \<^verbatim>\<open>new Error(msg)\<close> has neither a
  request nor a response.
\<close>

datatype 'e thrown = Thrown (message: string) (request: bool) (response: "'e response option")

definition new_Error :: "string \<Rightarrow> 'e thrown" where
  "new_Error msg = Thrown msg False None"

definition isAxiosErrorReq :: "'e thrown \<Rightarrow> bool" where
  "isAxiosErrorReq error = request error"

definition isAxiosErrorResp :: "'e thrown \<Rightarrow> bool" where
  "isAxiosErrorResp error = (request error \<and> response error \<noteq> None)"

section \<open>Effects\<close>

text \<open>
  Everything the client does to the outside is recorded, in order, in a trace: calls of the
  injected logger (\<^verbatim>\<open>this.log.debug\<close>, \<^verbatim>\<open>info\<close>, \<^verbatim>\<open>error\<close>: a message and a metadata
  object), \<^verbatim>\<open>console.log\<close>, requests handed to axios, and records yielded by the
  generator. A message is a template literal: text and printed numbers.
\<close>

datatype level = Debug | Info | Error

datatype template = Lit string | Num js_number

datatype ('b, 'e) meta =
    No_meta
  | Compare_meta int 'b
  | Response_error_meta string nat axios_config "'e response"
  | Request_error_meta string string axios_config
  | Rate_limit_meta string js_number js_number

datatype ('b, 'e, 'y) event =
    Log level "template list" "('b, 'e) meta"
  | Console_log "string list"
  | Ax axios_config
  | Yield 'y

text \<open>
  Modelled from the spec: \<^verbatim>\<open>throttle\<close> of the npm package lodash.throttle, which is not
  among the sources. The source wraps \<^verbatim>\<open>logRateLimitInfo\<close> in it with a wait of
  \<^verbatim>\<open>10 * 1000\<close> ms. Following the spec (4.3 and 9), the throttle keeps the time of the last
  emission and the values last seen. Only what a call of the throttled function does at
  once is modelled: it emits when no emission happened in the last 10 seconds, and
  otherwise only notes its values. An emission the library makes later from a timer, with
  the values last seen, is no step of this model.
\<close>

record throttle_state =
  lastEmitted :: "nat option"
  lastSeen :: "(js_number \<times> js_number) option"

definition throttle_wait :: nat where
  "throttle_wait = 10 * 1000"

text \<open>
  Modelled from the spec: whether the throttle lets a call at the clock reading \<open>now\<close>
  through, that is, whether no emission happened in the 10 seconds before.
\<close>

definition throttle_open :: "nat \<Rightarrow> throttle_state \<Rightarrow> bool" where
  "throttle_open now th =
     (case lastEmitted th of None \<Rightarrow> True | Some t \<Rightarrow> t + throttle_wait \<le> now)"

text \<open>
  The state threaded through the client: the outside world (the upstream server and the
  clock), the trace, and the throttle of this client instance.
\<close>

record ('w, 'b, 'e, 'y) state =
  world :: 'w
  trace :: "('b, 'e, 'y) event list"
  throttle :: throttle_state

definition emit :: "('b, 'e, 'y) event \<Rightarrow> ('w, 'b, 'e, 'y) state \<Rightarrow> ('w, 'b, 'e, 'y) state" where
  "emit ev s = s\<lparr>trace := trace s @ [ev]\<rparr>"

text \<open>
  The transport \<^verbatim>\<open>this.ax\<close>: given the configuration and the world, the outcome of the
  exchange (a thrown value or a response), the clock reading in milliseconds when it
  settles, and the world afterwards.
\<close>

type_synonym ('w, 'b, 'e) transport =
  "axios_config \<Rightarrow> 'w \<Rightarrow> (nat \<times> ('e thrown + 'b response)) \<times> 'w"

section \<open>The client\<close>

definition getCommitDate :: "(string \<Rightarrow> js_date) \<Rightarrow> Commit \<Rightarrow> js_date" where
  "getCommitDate newDate c =
     (let committerDate = newDate (date (committer c));
          authorDate = newDate (date (author c))
      in if date_gt committerDate authorDate then committerDate else authorDate)"

definition logRateLimitInfo ::
  "js_number \<Rightarrow> js_number \<Rightarrow> ('w, 'b, 'e, 'y) state \<Rightarrow> ('w, 'b, 'e, 'y) state" where
  "logRateLimitInfo remaining tot s =
     emit (Log Info [Lit ''rate limit '', Num remaining, Lit ''/'', Num tot]
             (Rate_limit_meta ''githubRateLimit'' remaining tot)) s"

text \<open>
  Modelled from the spec: a call of the field \<^verbatim>\<open>throttledLogRateLimitInfo\<close>, which the
  source sets to \<^verbatim>\<open>throttle((a, b) => this.logRateLimitInfo(a, b), 10 * 1000)\<close>, at the
  clock reading \<open>now\<close>. The values are noted as the last seen; if the throttle is open the
  wrapped \<^verbatim>\<open>logRateLimitInfo\<close> runs on them and the time is noted, otherwise the call
  writes nothing.
\<close>

definition throttledLogRateLimitInfo ::
  "nat \<Rightarrow> js_number \<Rightarrow> js_number \<Rightarrow> ('w, 'b, 'e, 'y) state \<Rightarrow> ('w, 'b, 'e, 'y) state" where
  "throttledLogRateLimitInfo now a b s =
     (let th = (throttle s)\<lparr>lastSeen := Some (a, b)\<rparr>
      in if throttle_open now th
         then logRateLimitInfo a b (s\<lparr>throttle := th\<lparr>lastEmitted := Some now\<rparr>\<rparr>)
         else s\<lparr>throttle := th\<rparr>)"

definition checkForRateLimitInfo ::
  "nat \<Rightarrow> 'x response \<Rightarrow> ('w, 'b, 'e, 'y) state \<Rightarrow> ('w, 'b, 'e, 'y) state" where
  "checkForRateLimitInfo now resp s =
     (if truthy (headers resp ''x-ratelimit-limit'') \<and>
         truthy (headers resp ''x-ratelimit-remaining'')
      then throttledLogRateLimitInfo now
             (Number_parseFloat (headers resp ''x-ratelimit-remaining''))
             (Number_parseFloat (headers resp ''x-ratelimit-limit'')) s
      else s)"

text \<open>
  \<^verbatim>\<open>req\<close>: the \<^verbatim>\<open>try\<close> block returns the response after the monitor has seen it; the
  \<^verbatim>\<open>catch\<close> block classifies the thrown value, logs, and rethrows it (\<open>Inl\<close> of the same
  value). Where \<^verbatim>\<open>isAxiosErrorResp\<close> holds, \<^verbatim>\<open>error.response\<close> is there, so the \<open>None\<close>
  branch under it is never taken.
\<close>

definition req ::
  "('w, 'b, 'e) transport \<Rightarrow> string \<Rightarrow> string \<Rightarrow> (string \<times> string) list option \<Rightarrow>
   (string \<times> string) list option \<Rightarrow> ('w, 'b, 'e, 'y) state \<Rightarrow>
   ('e thrown + 'b response) \<times> ('w, 'b, 'e, 'y) state" where
  "req ax m u p b s =
     (let cfg = \<lparr>http_method = m, url = u, params = p, body = b\<rparr>;
          ((now, outcome), w) = ax cfg (world s);
          s1 = emit (Ax cfg) (s\<lparr>world := w\<rparr>)
      in case outcome of
           Inr resp \<Rightarrow> (Inr resp, checkForRateLimitInfo now resp s1)
         | Inl error \<Rightarrow>
             if isAxiosErrorResp error then
               (case response error of
                  None \<Rightarrow> (Inl error, s1)
                | Some r \<Rightarrow>
                    (Inl error,
                     emit (Log Debug [Lit ''github api response error'']
                             (Response_error_meta ''githubApiResponseError'' (status r) cfg r))
                       (checkForRateLimitInfo now r s1)))
             else if isAxiosErrorReq error then
               (Inl error,
                emit (Log Debug [Lit ''github api request error'']
                        (Request_error_meta ''githubApiRequestError'' (message error) cfg)) s1)
             else (Inl error, s1))"

definition get ::
  "('w, 'b, 'e) transport \<Rightarrow> string \<Rightarrow> (string \<times> string) list option \<Rightarrow>
   ('w, 'b, 'e, 'y) state \<Rightarrow> ('e thrown + 'b response) \<times> ('w, 'b, 'e, 'y) state" where
  "get ax u p s = req ax ''get'' u p None s"

definition GithubApi_getCommitDate ::
  "(string \<Rightarrow> string) \<Rightarrow> (string \<Rightarrow> js_date) \<Rightarrow> ('w, commit_resource, 'e) transport \<Rightarrow>
   string \<Rightarrow> ('w, commit_resource, 'e, 'y) state \<Rightarrow>
   ('e thrown + js_date) \<times> ('w, commit_resource, 'e, 'y) state" where
  "GithubApi_getCommitDate encodeURIComponent newDate ax ref s =
     (let refComponent = encodeURIComponent ref
      in case get ax (''/repos/elastic/kibana/commits/'' @ refComponent) None s of
           (Inl error, s1) \<Rightarrow> (Inl error, s1)
         | (Inr resp, s1) \<Rightarrow> (Inr (getCommitDate newDate (commit (data resp))), s1))"

definition compare ::
  "(string \<Rightarrow> string) \<Rightarrow> ('w, 'c GithubApiCompare, 'e) transport \<Rightarrow> string \<Rightarrow> string \<Rightarrow>
   ('w, 'c GithubApiCompare, 'e, 'y) state \<Rightarrow>
   ('e thrown + 'c compare_result) \<times> ('w, 'c GithubApiCompare, 'e, 'y) state" where
  "compare encodeURIComponent ax headRef baseRef s =
     (let headComponent = encodeURIComponent headRef;
          baseComponent = encodeURIComponent baseRef;
          u = ''/repos/elastic/kibana/compare/'' @ headComponent @ ''...'' @ baseComponent
      in case get ax u None s of
           (Inl error, s1) \<Rightarrow> (Inl error, s1)
         | (Inr resp, s1) \<Rightarrow>
             (let total_missing = ahead_by (data resp);
                  missing = commits (data resp)
              in if 0 < total_missing \<and> length missing = 0 then
                   (Inl (new_Error ''Unexpected github response''),
                    emit (Log Error
                            [Lit ''unexpected github response, expected oldest missing commit'']
                            (Compare_meta total_missing (data resp))) s1)
                 else
                   (Inr \<lparr>totalMissingCommits = total_missing, missingCommits = missing\<rparr>, s1)))"

subsection \<open>Pagination\<close>

text \<open>
  \<^verbatim>\<open>parseLinkHeader\<close> comes from the npm package parse-link-header and is a parameter: it
  returns \<^verbatim>\<open>null\<close> (\<open>None\<close>) or an object with one entry per link relation, of which
  the code reads \<^verbatim>\<open>links.next.url\<close>: the result is modelled as a map from the relation to
  that URL.

  The generator \<^verbatim>\<open>ittrAllOpenPrs\<close> is modelled as driven to its end by the consumer: each
  \<^verbatim>\<open>yield\<close> is an event of the trace, a \<^verbatim>\<open>throw\<close> ends the traversal with \<open>Inl\<close>. The loop
  runs as long as the server advertises a next page, so it is a partial function: \<open>None\<close>
  stands for a traversal that never ends. Past the guard \<^verbatim>\<open>!page.headers['link']\<close> the
  header is a non-empty string, which \<open>Option.bind\<close> hands to the parser.
\<close>

definition fetchInitialPage ::
  "('w, 'b, 'e) transport \<Rightarrow> ('w, 'b, 'e, 'y) state \<Rightarrow>
   ('e thrown + 'b response) \<times> ('w, 'b, 'e, 'y) state" where
  "fetchInitialPage ax s =
     get ax ''/repos/elastic/kibana/pulls'' (Some [(''state'', ''open'')])
       (emit (Log Info [Lit ''fetching initial page of PRs''] No_meta) s)"

definition fetchNextPage ::
  "('w, 'b, 'e) transport \<Rightarrow> string \<Rightarrow> ('w, 'b, 'e, 'y) state \<Rightarrow>
   ('e thrown + 'b response) \<times> ('w, 'b, 'e, 'y) state" where
  "fetchNextPage ax u s =
     get ax u None (emit (Console_log [''fetching page of PRs'', u]) s)"

definition yield_all :: "'y list \<Rightarrow> ('w, 'b, 'e, 'y) state \<Rightarrow> ('w, 'b, 'e, 'y) state" where
  "yield_all prs s = fold (\<lambda>pr. emit (Yield pr)) prs s"

partial_function (option) ittr_loop ::
  "('w, 'y list, 'e) transport \<Rightarrow> (string \<Rightarrow> (string \<rightharpoonup> string) option) \<Rightarrow>
   string option list \<Rightarrow> ('w, 'y list, 'e, 'y) state \<Rightarrow>
   (('e thrown + unit) \<times> ('w, 'y list, 'e, 'y) state) option" where
  "ittr_loop ax parseLinkHeader urls s =
     (case urls of
        [] \<Rightarrow> Some (Inr (), s)
      | u # rest \<Rightarrow>
          (case (case u of Some v \<Rightarrow> fetchNextPage ax v s | None \<Rightarrow> fetchInitialPage ax s) of
             (Inl error, s1) \<Rightarrow> Some (Inl error, s1)
           | (Inr page, s1) \<Rightarrow>
               (let s2 = yield_all (data page) s1
                in if \<not> truthy (headers page ''link'') then
                     Some (Inl (new_Error ''missing link header''), s2)
                   else
                     (case Option.bind (headers page ''link'') parseLinkHeader of
                        None \<Rightarrow> Some (Inl (new_Error ''unable to parse link header''), s2)
                      | Some links \<Rightarrow>
                          (case links ''next'' of
                             Some next_url \<Rightarrow> ittr_loop ax parseLinkHeader (rest @ [Some next_url]) s2
                           | None \<Rightarrow> ittr_loop ax parseLinkHeader rest s2)))))"

definition ittrAllOpenPrs ::
  "('w, 'y list, 'e) transport \<Rightarrow> (string \<Rightarrow> (string \<rightharpoonup> string) option) \<Rightarrow>
   ('w, 'y list, 'e, 'y) state \<Rightarrow> (('e thrown + unit) \<times> ('w, 'y list, 'e, 'y) state) option" where
  "ittrAllOpenPrs ax parseLinkHeader s = ittr_loop ax parseLinkHeader [None] s"

text \<open>What a trace shows of the traversal: the requests issued and the records yielded.\<close>

fun is_request :: "('b, 'e, 'y) event \<Rightarrow> bool" where
  "is_request (Ax cfg) = True"
| "is_request ev = False"

fun is_yield :: "('b, 'e, 'y) event \<Rightarrow> bool" where
  "is_yield (Yield pr) = True"
| "is_yield ev = False"

definition requests_and_yields :: "('b, 'e, 'y) event list \<Rightarrow> ('b, 'e, 'y) event list" where
  "requests_and_yields tr = filter (\<lambda>ev. is_request ev \<or> is_yield ev) tr"

fun is_rate_limit_log :: "('b, 'e, 'y) event \<Rightarrow> bool" where
  "is_rate_limit_log (Log Info msg (Rate_limit_meta ty a b)) = True"
| "is_rate_limit_log ev = False"

subsection \<open>The context cache\<close>

text \<open>
  Modelled from the spec: \<^verbatim>\<open>makeContextCache\<close> of \<^verbatim>\<open>src/lib/req_cache.ts\<close>, which is not
  among the sources; the source only calls it with the factory
  \<^verbatim>\<open>ctx => new GithubApi(getRequestLogger(ctx), getConfigVar('GITHUB_SECRET'))\<close> and exports
  its \<^verbatim>\<open>get\<close> and \<^verbatim>\<open>assignValue\<close>. Following the spec (4.6), the cache maps a context key
  to an instance: the first access for a key calls the factory and stores the result, later
  accesses return the stored instance, and \<^verbatim>\<open>assignValue\<close> stores a given instance for a
  key. The calls of the factory are recorded, so that constructing an instance is visible.
\<close>

record ('k, 'c) context_cache =
  cached :: "'k \<rightharpoonup> 'c"
  factory_calls :: "'k list"

definition makeContextCache_get ::
  "('k \<Rightarrow> 'c) \<Rightarrow> 'k \<Rightarrow> ('k, 'c) context_cache \<Rightarrow> 'c \<times> ('k, 'c) context_cache" where
  "makeContextCache_get factory ctx c =
     (case cached c ctx of
        Some v \<Rightarrow> (v, c)
      | None \<Rightarrow>
          (let v = factory ctx
           in (v, c\<lparr>cached := (cached c)(ctx \<mapsto> v), factory_calls := factory_calls c @ [ctx]\<rparr>)))"

definition makeContextCache_assignValue ::
  "'k \<Rightarrow> 'c \<Rightarrow> ('k, 'c) context_cache \<Rightarrow> ('k, 'c) context_cache" where
  "makeContextCache_assignValue ctx v c = c\<lparr>cached := (cached c)(ctx \<mapsto> v)\<rparr>"

definition getGithubApi ::
  "('k \<Rightarrow> 'c) \<Rightarrow> 'k \<Rightarrow> ('k, 'c) context_cache \<Rightarrow> 'c \<times> ('k, 'c) context_cache" where
  "getGithubApi new_GithubApi = makeContextCache_get new_GithubApi"

definition assignGithubApi :: "'k \<Rightarrow> 'c \<Rightarrow> ('k, 'c) context_cache \<Rightarrow> ('k, 'c) context_cache" where
  "assignGithubApi = makeContextCache_assignValue"

text \<open>Sequences of accesses and overrides, to speak about every later access.\<close>

datatype ('k, 'c) cache_op = Get 'k | AssignValue 'k 'c

fun overrides :: "'k \<Rightarrow> ('k, 'c) cache_op \<Rightarrow> bool" where
  "overrides ctx (AssignValue k v) = (k = ctx)"
| "overrides ctx (Get k) = False"

fun run_ops ::
  "('k \<Rightarrow> 'c) \<Rightarrow> ('k, 'c) cache_op list \<Rightarrow> ('k, 'c) context_cache \<Rightarrow> ('k, 'c) context_cache" where
  "run_ops f [] c = c"
| "run_ops f (Get k # ops) c = run_ops f ops (snd (getGithubApi f k c))"
| "run_ops f (AssignValue k v # ops) c = run_ops f ops (assignGithubApi k v c)"

section \<open>Example inputs\<close>

text \<open>A client that has just been constructed: nothing traced, the throttle never fired.\<close>

definition fresh :: "'w \<Rightarrow> ('w, 'b, 'e, 'y) state" where
  "fresh w = \<lparr>world = w, trace = [], throttle = \<lparr>lastEmitted = None, lastSeen = None\<rparr>\<rparr>"

text \<open>An upstream that settles every request with the same outcome at the same time.\<close>

definition answer :: "nat \<times> ('e thrown + 'b response) \<Rightarrow> (unit, 'b, 'e) transport" where
  "answer outcome = (\<lambda>cfg w. (outcome, w))"

definition ok_response :: "(string \<rightharpoonup> string) \<Rightarrow> 'b \<Rightarrow> 'b response" where
  "ok_response hs d = \<lparr>status = 200, statusText = ''OK'', headers = hs, data = d\<rparr>"

definition demo_newDate :: "string \<Rightarrow> js_date" where
  "demo_newDate s =
     (if s = ''2019-06-01T10:00:00Z'' then Date (Some 1559383200000)
      else if s = ''2019-06-02T10:00:00Z'' then Date (Some 1559469600000)
      else Date None)"

text \<open>
  Two pages of open pull requests (a record is stood for by its number): the first page
  links to the second, the second only back to the first. The example parser answers as
  parse-link-header does on the headers used here: the relations of the two link headers,
  \<^verbatim>\<open>null\<close> for an empty header, and an object without relations for any other string, such
  as one it cannot parse.
\<close>

definition demo_next_url :: string where
  "demo_next_url = ''https://api.github.com/repositories/7833168/pulls?state=open&page=2''"

definition demo_link1 :: string where
  "demo_link1 = ''<https://api.github.com/repositories/7833168/pulls?state=open&page=2>; rel=next''"

definition demo_link2 :: string where
  "demo_link2 = ''<https://api.github.com/repositories/7833168/pulls?state=open&page=1>; rel=first''"

definition demo_parseLinkHeader :: "string \<Rightarrow> (string \<rightharpoonup> string) option" where
  "demo_parseLinkHeader h =
     (if h = demo_link1 then Some [''next'' \<mapsto> demo_next_url]
      else if h = demo_link2
      then Some [''first'' \<mapsto> ''https://api.github.com/repositories/7833168/pulls?state=open&page=1'']
      else if h = [] then None
      else Some Map.empty)"

definition demo_server :: "(unit, nat list, unit) transport" where
  "demo_server cfg w =
     (if url cfg = ''/repos/elastic/kibana/pulls''
      then ((1000, Inr (ok_response [''link'' \<mapsto> demo_link1] [101, 102, 103])), w)
      else if url cfg = demo_next_url
      then ((2000, Inr (ok_response [''link'' \<mapsto> demo_link2] [104, 105])), w)
      else ((3000, Inl (Thrown ''Request failed with status code 404'' True
                         (Some \<lparr>status = 404, statusText = ''Not Found'',
                                headers = Map.empty, data = ()\<rparr>))), w))"

definition rate_headers :: "string \<Rightarrow> string \<Rightarrow> (string \<rightharpoonup> string)" where
  "rate_headers remaining limit =
     [''x-ratelimit-limit'' \<mapsto> limit, ''x-ratelimit-remaining'' \<mapsto> remaining]"

text \<open>Error responses: a rejected status update, and a rate-limited request.\<close>

definition demo_422 :: "string response" where
  "demo_422 = \<lparr>status = 422, statusText = ''Unprocessable Entity'', headers = Map.empty,
               data = ''Validation Failed''\<rparr>"

definition demo_403 :: "string response" where
  "demo_403 = \<lparr>status = 403, statusText = ''Forbidden'', headers = rate_headers ''0'' ''5000'',
               data = ''API rate limit exceeded''\<rparr>"

section \<open>Commit date\<close>

text \<open>
  Claim C4. For a commit whose author date parses to the time \<open>t1\<close> and whose committer
  date parses to \<open>t2\<close>, \<^verbatim>\<open>getCommitDate(ref)\<close> returns the date with time \<open>max t1 t2\<close>: the
  committer date when it is strictly later, the author date otherwise (also when both are
  equal).
\<close>

theorem getCommitDate_is_later_date:
  assumes "ax \<lparr>http_method = ''get'', url = ''/repos/elastic/kibana/commits/'' @ encodeURIComponent ref,
                params = None, body = None\<rparr> (world s) = ((now, Inr resp), w)"
    and "newDate (date (author (commit (data resp)))) = Date (Some t1)"
    and "newDate (date (committer (commit (data resp)))) = Date (Some t2)"
  shows "fst (GithubApi_getCommitDate encodeURIComponent newDate ax ref s) = Inr (Date (Some (max t1 t2)))
       \<and> getCommitDate newDate (commit (data resp)) =
           (if t1 < t2 then newDate (date (committer (commit (data resp))))
            else newDate (date (author (commit (data resp)))))"
proof -
  have "fst (get ax (''/repos/elastic/kibana/commits/'' @ encodeURIComponent ref) None s) = Inr resp"
    using assms(1) by (simp add: get_def req_def Let_def)
  then have "fst (GithubApi_getCommitDate encodeURIComponent newDate ax ref s)
          = Inr (getCommitDate newDate (commit (data resp)))"
    by (cases "get ax (''/repos/elastic/kibana/commits/'' @ encodeURIComponent ref) None s")
      (simp add: GithubApi_getCommitDate_def Let_def)
  moreover have "getCommitDate newDate (commit (data resp)) = Date (Some (max t1 t2))"
    using assms(2,3) by (simp add: getCommitDate_def date_gt_def Let_def max_def)
  moreover have "getCommitDate newDate (commit (data resp)) =
           (if t1 < t2 then newDate (date (committer (commit (data resp))))
            else newDate (date (author (commit (data resp)))))"
    using assms(2,3) by (simp add: getCommitDate_def date_gt_def Let_def)
  ultimately show ?thesis by simp
qed

text \<open>The author date is the later one here, and is the one returned.\<close>

theorem getCommitDate_is_later_date_witness:
  "fst (GithubApi_getCommitDate (\<lambda>x. x) demo_newDate
         (answer (0, Inr (ok_response Map.empty
            \<lparr>commit = \<lparr>author = \<lparr>date = ''2019-06-02T10:00:00Z''\<rparr>,
                        committer = \<lparr>date = ''2019-06-01T10:00:00Z''\<rparr>\<rparr>\<rparr>)))
         ''master'' (fresh () :: (unit, commit_resource, unit, unit) state))
     = Inr (Date (Some 1559469600000))"
  using getCommitDate_is_later_date [where
      ax = "answer (0, Inr (ok_response Map.empty
            \<lparr>commit = \<lparr>author = \<lparr>date = ''2019-06-02T10:00:00Z''\<rparr>,
                        committer = \<lparr>date = ''2019-06-01T10:00:00Z''\<rparr>\<rparr>\<rparr>))"
      and encodeURIComponent = "\<lambda>x. x" and ref = "''master''"
      and s = "fresh () :: (unit, commit_resource, unit, unit) state"
      and now = 0 and w = "()" and newDate = demo_newDate
      and ?t1.0 = 1559469600000 and ?t2.0 = 1559383200000]
  by (simp add: demo_newDate_def answer_def ok_response_def)

section \<open>Compare\<close>

text \<open>
  Claim C1. When the compare resource comes back with \<^verbatim>\<open>ahead_by > 0\<close> and an empty
  \<^verbatim>\<open>commits\<close> list, \<^verbatim>\<open>compare\<close> logs the response body at error level and fails with
  the error "Unexpected github response"; with \<^verbatim>\<open>ahead_by = 0\<close> an empty list is accepted,
  and whenever the check passes the result is \<^verbatim>\<open>{totalMissingCommits, missingCommits}\<close>
  as the response gives them.
\<close>

theorem compare_checks_response:
  assumes "ax \<lparr>http_method = ''get'',
               url = ''/repos/elastic/kibana/compare/'' @ enc headRef @ ''...'' @ enc baseRef,
               params = None, body = None\<rparr> (world s) = ((now, Inr resp), w)"
  shows "(0 < ahead_by (data resp) \<and> commits (data resp) = [] \<longrightarrow>
            compare enc ax headRef baseRef s =
              (Inl (new_Error ''Unexpected github response''),
               emit (Log Error [Lit ''unexpected github response, expected oldest missing commit'']
                       (Compare_meta (ahead_by (data resp)) (data resp)))
                 (checkForRateLimitInfo now resp
                    (emit (Ax \<lparr>http_method = ''get'',
                               url = ''/repos/elastic/kibana/compare/'' @ enc headRef @ ''...'' @ enc baseRef,
                               params = None, body = None\<rparr>) (s\<lparr>world := w\<rparr>)))))
       \<and> (ahead_by (data resp) = 0 \<and> commits (data resp) = [] \<longrightarrow>
            fst (compare enc ax headRef baseRef s) =
              Inr \<lparr>totalMissingCommits = 0, missingCommits = []\<rparr>)
       \<and> (\<not> (0 < ahead_by (data resp) \<and> commits (data resp) = []) \<longrightarrow>
            fst (compare enc ax headRef baseRef s) =
              Inr \<lparr>totalMissingCommits = ahead_by (data resp), missingCommits = commits (data resp)\<rparr>)"
  using assms by (simp add: compare_def get_def req_def Let_def)

text \<open>
  Two commits ahead and none listed: the request, then the error entry, then the failure.
  Zero ahead and none listed: the result.
\<close>

theorem compare_checks_response_witness:
  "compare (\<lambda>x. x) (answer (5, Inr (ok_response Map.empty \<lparr>ahead_by = 2, commits = ([] :: string list)\<rparr>)))
      ''feature'' ''master'' (fresh () :: (unit, string GithubApiCompare, unit, unit) state)
     = (Inl (new_Error ''Unexpected github response''),
        \<lparr>world = (),
         trace = [Ax \<lparr>http_method = ''get'', url = ''/repos/elastic/kibana/compare/feature...master'',
                       params = None, body = None\<rparr>,
                  Log Error [Lit ''unexpected github response, expected oldest missing commit'']
                    (Compare_meta 2 \<lparr>ahead_by = 2, commits = []\<rparr>)],
         throttle = \<lparr>lastEmitted = None, lastSeen = None\<rparr>\<rparr>)
   \<and> fst (compare (\<lambda>x. x) (answer (5, Inr (ok_response Map.empty \<lparr>ahead_by = 0, commits = ([] :: string list)\<rparr>)))
      ''feature'' ''master'' (fresh () :: (unit, string GithubApiCompare, unit, unit) state))
     = Inr \<lparr>totalMissingCommits = 0, missingCommits = []\<rparr>"
proof -
  let ?a2 = "answer (5, Inr (ok_response Map.empty \<lparr>ahead_by = 2, commits = ([] :: string list)\<rparr>))
               :: (unit, string GithubApiCompare, unit) transport"
  let ?a0 = "answer (5, Inr (ok_response Map.empty \<lparr>ahead_by = 0, commits = ([] :: string list)\<rparr>))
               :: (unit, string GithubApiCompare, unit) transport"
  let ?s = "fresh () :: (unit, string GithubApiCompare, unit, unit) state"
  have 1: "?a2 \<lparr>http_method = ''get'',
               url = ''/repos/elastic/kibana/compare/'' @ (\<lambda>x. x) ''feature'' @ ''...'' @ (\<lambda>x. x) ''master'',
               params = None, body = None\<rparr> (world ?s)
            = ((5, Inr (ok_response Map.empty \<lparr>ahead_by = 2, commits = []\<rparr>)), ())"
    by (simp add: answer_def)
  have 2: "?a0 \<lparr>http_method = ''get'',
               url = ''/repos/elastic/kibana/compare/'' @ (\<lambda>x. x) ''feature'' @ ''...'' @ (\<lambda>x. x) ''master'',
               params = None, body = None\<rparr> (world ?s)
            = ((5, Inr (ok_response Map.empty \<lparr>ahead_by = 0, commits = []\<rparr>)), ())"
    by (simp add: answer_def)
  show ?thesis
    using compare_checks_response [where ax = ?a2 and enc = "\<lambda>x. x", OF 1]
          compare_checks_response [where ax = ?a0 and enc = "\<lambda>x. x", OF 2]
    by (simp add: ok_response_def fresh_def emit_def checkForRateLimitInfo_def truthy_def)
qed

section \<open>The dispatcher\<close>

text \<open>
  Claim C5. When the transport throws, \<^verbatim>\<open>req\<close> rethrows the very same value in every
  case. If the error carries a request and a response, one debug entry of type
  "githubApiResponseError" is written with the method, url, params and body of the request
  and the status, status text, headers and body of the response. If it carries a request
  but no response, one debug entry of type "githubApiRequestError" is written with the
  method, url, params, body and the error message. If it carries no request, nothing is
  written.
\<close>

theorem req_classifies_errors:
  assumes "ax \<lparr>http_method = m, url = u, params = p, body = b\<rparr> (world s) = ((now, Inl error), w)"
  shows "fst (req ax m u p b s) = Inl error
       \<and> (\<forall>r. isAxiosErrorResp error \<and> response error = Some r \<longrightarrow>
            snd (req ax m u p b s) =
              emit (Log Debug [Lit ''github api response error'']
                      (Response_error_meta ''githubApiResponseError'' (status r)
                         \<lparr>http_method = m, url = u, params = p, body = b\<rparr> r))
                (checkForRateLimitInfo now r
                   (emit (Ax \<lparr>http_method = m, url = u, params = p, body = b\<rparr>) (s\<lparr>world := w\<rparr>))))
       \<and> (isAxiosErrorReq error \<and> \<not> isAxiosErrorResp error \<longrightarrow>
            snd (req ax m u p b s) =
              emit (Log Debug [Lit ''github api request error'']
                      (Request_error_meta ''githubApiRequestError'' (message error)
                         \<lparr>http_method = m, url = u, params = p, body = b\<rparr>))
                (emit (Ax \<lparr>http_method = m, url = u, params = p, body = b\<rparr>) (s\<lparr>world := w\<rparr>)))
       \<and> (\<not> isAxiosErrorReq error \<longrightarrow>
            snd (req ax m u p b s) =
              emit (Ax \<lparr>http_method = m, url = u, params = p, body = b\<rparr>) (s\<lparr>world := w\<rparr>))"
  using assms
  by (auto simp add: req_def Let_def isAxiosErrorResp_def isAxiosErrorReq_def split: option.splits)

text \<open>
  A 422 answer to a status update, a refused connection, and a thrown value that is not an
  axios error: what is returned and what the trace holds afterwards.
\<close>

theorem req_classifies_errors_witness:
  "req (answer (7, Inl (Thrown ''Request failed with status code 422'' True (Some demo_422))))
       ''post'' ''/repos/elastic/kibana/statuses/abc'' None (Some [(''state'', ''success'')])
       (fresh () :: (unit, unit, string, unit) state)
     = (Inl (Thrown ''Request failed with status code 422'' True (Some demo_422)),
        \<lparr>world = (),
         trace = [Ax \<lparr>http_method = ''post'', url = ''/repos/elastic/kibana/statuses/abc'',
                      params = None, body = Some [(''state'', ''success'')]\<rparr>,
                  Log Debug [Lit ''github api response error'']
                    (Response_error_meta ''githubApiResponseError'' 422
                       \<lparr>http_method = ''post'', url = ''/repos/elastic/kibana/statuses/abc'',
                        params = None, body = Some [(''state'', ''success'')]\<rparr> demo_422)],
         throttle = \<lparr>lastEmitted = None, lastSeen = None\<rparr>\<rparr>)
   \<and> req (answer (7, Inl (Thrown ''connect ECONNREFUSED'' True None)))
       ''get'' ''/repos/elastic/kibana/pulls/1'' None None
       (fresh () :: (unit, unit, string, unit) state)
     = (Inl (Thrown ''connect ECONNREFUSED'' True None),
        \<lparr>world = (),
         trace = [Ax \<lparr>http_method = ''get'', url = ''/repos/elastic/kibana/pulls/1'',
                      params = None, body = None\<rparr>,
                  Log Debug [Lit ''github api request error'']
                    (Request_error_meta ''githubApiRequestError'' ''connect ECONNREFUSED''
                       \<lparr>http_method = ''get'', url = ''/repos/elastic/kibana/pulls/1'',
                        params = None, body = None\<rparr>)],
         throttle = \<lparr>lastEmitted = None, lastSeen = None\<rparr>\<rparr>)
   \<and> req (answer (7, Inl (Thrown ''boom'' False None)))
       ''get'' ''/repos/elastic/kibana/pulls/1'' None None
       (fresh () :: (unit, unit, string, unit) state)
     = (Inl (Thrown ''boom'' False None),
        \<lparr>world = (),
         trace = [Ax \<lparr>http_method = ''get'', url = ''/repos/elastic/kibana/pulls/1'',
                      params = None, body = None\<rparr>],
         throttle = \<lparr>lastEmitted = None, lastSeen = None\<rparr>\<rparr>)"
proof -
  let ?s = "fresh () :: (unit, unit, string, unit) state"
  let ?e1 = "Thrown ''Request failed with status code 422'' True (Some demo_422)"
  let ?e2 = "Thrown ''connect ECONNREFUSED'' True None :: string thrown"
  let ?e3 = "Thrown ''boom'' False None :: string thrown"
  have 1: "(answer (7, Inl ?e1) :: (unit, unit, string) transport)
             \<lparr>http_method = ''post'', url = ''/repos/elastic/kibana/statuses/abc'', params = None,
              body = Some [(''state'', ''success'')]\<rparr> (world ?s) = ((7, Inl ?e1), ())"
    by (simp add: answer_def)
  have 2: "(answer (7, Inl ?e2) :: (unit, unit, string) transport)
             \<lparr>http_method = ''get'', url = ''/repos/elastic/kibana/pulls/1'', params = None,
              body = None\<rparr> (world ?s) = ((7, Inl ?e2), ())"
    by (simp add: answer_def)
  have 3: "(answer (7, Inl ?e3) :: (unit, unit, string) transport)
             \<lparr>http_method = ''get'', url = ''/repos/elastic/kibana/pulls/1'', params = None,
              body = None\<rparr> (world ?s) = ((7, Inl ?e3), ())"
    by (simp add: answer_def)
  have c: "checkForRateLimitInfo 7 demo_422 s = s" for s :: "(unit, unit, string, unit) state"
    by (simp add: checkForRateLimitInfo_def truthy_def demo_422_def)
  have st: "status demo_422 = 422" by (simp add: demo_422_def)
  show ?thesis
    using req_classifies_errors [where ax = "answer (7, Inl ?e1)", OF 1]
          req_classifies_errors [where ax = "answer (7, Inl ?e2)", OF 2]
          req_classifies_errors [where ax = "answer (7, Inl ?e3)", OF 3]
    by (simp add: prod_eq_iff isAxiosErrorResp_def isAxiosErrorReq_def fresh_def emit_def c st)
qed

text \<open>
  Claim C7. Whenever the transport delivers a response, \<^verbatim>\<open>req\<close> hands it to
  \<^verbatim>\<open>checkForRateLimitInfo\<close> before it returns: on success the state returned is the
  monitor's, and on an error that carries a request and a response the monitor runs on that
  response before the debug entry is written and the error rethrown. An error without a
  response leaves the throttle untouched and adds no rate-limit line.
\<close>

theorem dispatcher_feeds_monitor:
  "(\<forall>resp. ax \<lparr>http_method = m, url = u, params = p, body = b\<rparr> (world s) = ((now, Inr resp), w) \<longrightarrow>
       req ax m u p b s =
         (Inr resp, checkForRateLimitInfo now resp
                      (emit (Ax \<lparr>http_method = m, url = u, params = p, body = b\<rparr>) (s\<lparr>world := w\<rparr>))))
   \<and> (\<forall>error r. ax \<lparr>http_method = m, url = u, params = p, body = b\<rparr> (world s) = ((now, Inl error), w) \<and>
         isAxiosErrorResp error \<and> response error = Some r \<longrightarrow>
       req ax m u p b s =
         (Inl error,
          emit (Log Debug [Lit ''github api response error'']
                  (Response_error_meta ''githubApiResponseError'' (status r)
                     \<lparr>http_method = m, url = u, params = p, body = b\<rparr> r))
            (checkForRateLimitInfo now r
               (emit (Ax \<lparr>http_method = m, url = u, params = p, body = b\<rparr>) (s\<lparr>world := w\<rparr>)))))
   \<and> (\<forall>error. ax \<lparr>http_method = m, url = u, params = p, body = b\<rparr> (world s) = ((now, Inl error), w) \<and>
         \<not> isAxiosErrorResp error \<longrightarrow>
       fst (req ax m u p b s) = Inl error \<and>
       throttle (snd (req ax m u p b s)) = throttle s \<and>
       filter is_rate_limit_log (trace (snd (req ax m u p b s))) = filter is_rate_limit_log (trace s))"
proof (intro conjI allI impI)
  fix resp
  assume "ax \<lparr>http_method = m, url = u, params = p, body = b\<rparr> (world s) = ((now, Inr resp), w)"
  then show "req ax m u p b s =
         (Inr resp, checkForRateLimitInfo now resp
                      (emit (Ax \<lparr>http_method = m, url = u, params = p, body = b\<rparr>) (s\<lparr>world := w\<rparr>)))"
    by (simp add: req_def Let_def)
next
  fix error r
  assume "ax \<lparr>http_method = m, url = u, params = p, body = b\<rparr> (world s) = ((now, Inl error), w) \<and>
         isAxiosErrorResp error \<and> response error = Some r"
  then show "req ax m u p b s =
         (Inl error,
          emit (Log Debug [Lit ''github api response error'']
                  (Response_error_meta ''githubApiResponseError'' (status r)
                     \<lparr>http_method = m, url = u, params = p, body = b\<rparr> r))
            (checkForRateLimitInfo now r
               (emit (Ax \<lparr>http_method = m, url = u, params = p, body = b\<rparr>) (s\<lparr>world := w\<rparr>))))"
    by (simp add: req_def Let_def)
next
  fix error
  assume a: "ax \<lparr>http_method = m, url = u, params = p, body = b\<rparr> (world s) = ((now, Inl error), w) \<and>
         \<not> isAxiosErrorResp error"
  then show "fst (req ax m u p b s) = Inl error"
    by (simp add: req_def Let_def)
  from a show "throttle (snd (req ax m u p b s)) = throttle s"
    by (simp add: req_def Let_def emit_def)
  from a show "filter is_rate_limit_log (trace (snd (req ax m u p b s))) = filter is_rate_limit_log (trace s)"
    by (simp add: req_def Let_def emit_def)
qed

text \<open>
  A successful answer and a 403 answer, both with rate-limit headers, reach the monitor
  (the rate-limit line follows the request); a refused connection does not.
\<close>

theorem dispatcher_feeds_monitor_witness:
  "trace (snd (req (answer (1000, Inr (ok_response (rate_headers ''4999'' ''5000'') ())))
                 ''get'' ''/repos/elastic/kibana/pulls/1'' None None
                 (fresh () :: (unit, unit, string, unit) state)))
     = [Ax \<lparr>http_method = ''get'', url = ''/repos/elastic/kibana/pulls/1'', params = None, body = None\<rparr>,
        Log Info [Lit ''rate limit '', Num (ParseFloat ''4999''), Lit ''/'', Num (ParseFloat ''5000'')]
          (Rate_limit_meta ''githubRateLimit'' (ParseFloat ''4999'') (ParseFloat ''5000''))]
   \<and> trace (snd (req (answer (1000, Inl (Thrown ''Request failed with status code 403'' True (Some demo_403))))
                 ''get'' ''/repos/elastic/kibana/pulls/1'' None None
                 (fresh () :: (unit, unit, string, unit) state)))
     = [Ax \<lparr>http_method = ''get'', url = ''/repos/elastic/kibana/pulls/1'', params = None, body = None\<rparr>,
        Log Info [Lit ''rate limit '', Num (ParseFloat ''0''), Lit ''/'', Num (ParseFloat ''5000'')]
          (Rate_limit_meta ''githubRateLimit'' (ParseFloat ''0'') (ParseFloat ''5000'')),
        Log Debug [Lit ''github api response error'']
          (Response_error_meta ''githubApiResponseError'' 403
             \<lparr>http_method = ''get'', url = ''/repos/elastic/kibana/pulls/1'', params = None, body = None\<rparr>
             demo_403)]
   \<and> throttle (snd (req (answer (1000, Inl (Thrown ''connect ECONNREFUSED'' True None)))
                 ''get'' ''/repos/elastic/kibana/pulls/1'' None None
                 (fresh () :: (unit, unit, string, unit) state)))
     = \<lparr>lastEmitted = None, lastSeen = None\<rparr>"
proof -
  let ?s = "fresh () :: (unit, unit, string, unit) state"
  let ?a1 = "answer (1000, Inr (ok_response (rate_headers ''4999'' ''5000'') ())) :: (unit, unit, string) transport"
  let ?a2 = "answer (1000, Inl (Thrown ''Request failed with status code 403'' True (Some demo_403)))
               :: (unit, unit, string) transport"
  let ?a3 = "answer (1000, Inl (Thrown ''connect ECONNREFUSED'' True None)) :: (unit, unit, string) transport"
  have c1: "checkForRateLimitInfo 1000 (ok_response (rate_headers ''4999'' ''5000'') ()) (emit ev ?s) =
           \<lparr>world = (),
            trace = [ev, Log Info [Lit ''rate limit '', Num (ParseFloat ''4999''), Lit ''/'', Num (ParseFloat ''5000'')]
              (Rate_limit_meta ''githubRateLimit'' (ParseFloat ''4999'') (ParseFloat ''5000''))],
            throttle = \<lparr>lastEmitted = Some 1000,
                        lastSeen = Some (ParseFloat ''4999'', ParseFloat ''5000'')\<rparr>\<rparr>" for ev
    by (simp add: checkForRateLimitInfo_def truthy_def ok_response_def rate_headers_def
        Number_parseFloat_def throttledLogRateLimitInfo_def throttle_open_def logRateLimitInfo_def
        emit_def fresh_def Let_def)
  have c2: "checkForRateLimitInfo 1000 demo_403 (emit ev ?s) =
           \<lparr>world = (),
            trace = [ev, Log Info [Lit ''rate limit '', Num (ParseFloat ''0''), Lit ''/'', Num (ParseFloat ''5000'')]
              (Rate_limit_meta ''githubRateLimit'' (ParseFloat ''0'') (ParseFloat ''5000''))],
            throttle = \<lparr>lastEmitted = Some 1000,
                        lastSeen = Some (ParseFloat ''0'', ParseFloat ''5000'')\<rparr>\<rparr>" for ev
    by (simp add: checkForRateLimitInfo_def truthy_def demo_403_def rate_headers_def
        Number_parseFloat_def throttledLogRateLimitInfo_def throttle_open_def logRateLimitInfo_def
        emit_def fresh_def Let_def)
  have st: "status demo_403 = 403" by (simp add: demo_403_def)
  have w: "?s\<lparr>world := ()\<rparr> = ?s" by simp
  have t: "throttle ?s = \<lparr>lastEmitted = None, lastSeen = None\<rparr>" by (simp add: fresh_def)
  show ?thesis
    using dispatcher_feeds_monitor [where ax = ?a1 and m = "''get''" and u = "''/repos/elastic/kibana/pulls/1''"
              and p = None and b = None and s = ?s and now = 1000 and w = "()"]
          dispatcher_feeds_monitor [where ax = ?a2 and m = "''get''" and u = "''/repos/elastic/kibana/pulls/1''"
              and p = None and b = None and s = ?s and now = 1000 and w = "()"]
          dispatcher_feeds_monitor [where ax = ?a3 and m = "''get''" and u = "''/repos/elastic/kibana/pulls/1''"
              and p = None and b = None and s = ?s and now = 1000 and w = "()"]
    by (simp add: w t answer_def isAxiosErrorResp_def c1 c2 st) (simp add: emit_def)
qed

section \<open>The rate-limit monitor\<close>

text \<open>
  Claim C6, amended. For every response whose \<^verbatim>\<open>x-ratelimit-remaining\<close> and
  \<^verbatim>\<open>x-ratelimit-limit\<close> headers are both present with a non-empty value, the monitor
  passes the two values, parsed by \<^verbatim>\<open>Number.parseFloat\<close>, to the throttled logger: when
  the throttle lets the call through, exactly the info line "rate limit remaining/limit"
  tagged "githubRateLimit" is added to the trace, and nothing otherwise. For every
  response that lacks either header the monitor does nothing at all.
\<close>

theorem monitor_emits_for_nonempty_headers:
  "(\<forall>lim rem. headers resp ''x-ratelimit-limit'' = Some lim \<and> lim \<noteq> [] \<and>
        headers resp ''x-ratelimit-remaining'' = Some rem \<and> rem \<noteq> [] \<longrightarrow>
        checkForRateLimitInfo now resp s =
          throttledLogRateLimitInfo now (ParseFloat rem) (ParseFloat lim) s
        \<and> trace (checkForRateLimitInfo now resp s) =
            (if throttle_open now (throttle s)
             then trace s @ [Log Info [Lit ''rate limit '', Num (ParseFloat rem), Lit ''/'', Num (ParseFloat lim)]
                               (Rate_limit_meta ''githubRateLimit'' (ParseFloat rem) (ParseFloat lim))]
             else trace s))
   \<and> (headers resp ''x-ratelimit-limit'' = None \<or> headers resp ''x-ratelimit-remaining'' = None \<longrightarrow>
        checkForRateLimitInfo now resp s = s)"
  by (auto simp add: checkForRateLimitInfo_def throttledLogRateLimitInfo_def logRateLimitInfo_def
      emit_def Let_def truthy_def Number_parseFloat_def throttle_open_def split: option.splits)

text \<open>
  A fresh client sees 4999 of 5000 and writes the line; a response without the headers
  leaves it as it was.
\<close>

theorem monitor_emits_for_nonempty_headers_witness:
  "trace (checkForRateLimitInfo 1000 (ok_response (rate_headers ''4999'' ''5000'') ())
            (fresh () :: (unit, unit, unit, unit) state))
     = [Log Info [Lit ''rate limit '', Num (ParseFloat ''4999''), Lit ''/'', Num (ParseFloat ''5000'')]
          (Rate_limit_meta ''githubRateLimit'' (ParseFloat ''4999'') (ParseFloat ''5000''))]
   \<and> checkForRateLimitInfo 1000 (ok_response Map.empty ())
         (fresh () :: (unit, unit, unit, unit) state) = fresh ()"
  using monitor_emits_for_nonempty_headers [where resp = "ok_response (rate_headers ''4999'' ''5000'') ()"
          and now = 1000 and s = "fresh () :: (unit, unit, unit, unit) state"]
        monitor_emits_for_nonempty_headers [where resp = "ok_response Map.empty ()"
          and now = 1000 and s = "fresh () :: (unit, unit, unit, unit) state"]
  by (simp add: ok_response_def rate_headers_def throttle_open_def fresh_def
      checkForRateLimitInfo_def truthy_def Number_parseFloat_def throttledLogRateLimitInfo_def
      logRateLimitInfo_def emit_def Let_def)

text \<open>
  The claim as first stated, for every response that includes both headers, fails for a
  header that is present with an empty value: the limit header is there, and a fresh
  client, whose throttle is open, writes nothing.
\<close>

theorem monitor_silent_on_empty_limit_counterexample:
  "headers (ok_response (rate_headers ''4999'' '''') ()) ''x-ratelimit-limit'' = Some ''''
   \<and> headers (ok_response (rate_headers ''4999'' '''') ()) ''x-ratelimit-remaining'' = Some ''4999''
   \<and> throttle_open 1000 (throttle (fresh () :: (unit, unit, unit, unit) state))
   \<and> checkForRateLimitInfo 1000 (ok_response (rate_headers ''4999'' '''') ())
         (fresh () :: (unit, unit, unit, unit) state) = fresh ()"
  by (simp add: checkForRateLimitInfo_def truthy_def ok_response_def rate_headers_def
      throttle_open_def fresh_def)

text \<open>
  Claim C10, amended. When both rate-limit headers are present and either value is the
  empty string, the monitor does nothing: presence is tested by the truthiness of the
  value, and the empty string is the only falsy string.
\<close>

theorem monitor_ignores_empty_header_value:
  assumes "headers resp ''x-ratelimit-limit'' = Some lim"
    and "headers resp ''x-ratelimit-remaining'' = Some rem"
    and "lim = [] \<or> rem = []"
  shows "checkForRateLimitInfo now resp s = s"
  using assms by (auto simp add: checkForRateLimitInfo_def truthy_def)

theorem monitor_ignores_empty_header_value_witness:
  "checkForRateLimitInfo 1000 (ok_response (rate_headers '''' ''5000'') ())
     (fresh () :: (unit, unit, unit, unit) state) = fresh ()"
  using monitor_ignores_empty_header_value [where resp = "ok_response (rate_headers '''' ''5000'') ()"
          and lim = "''5000''" and rem = "''''" and now = 1000
          and s = "fresh () :: (unit, unit, unit, unit) state"]
  by (simp add: ok_response_def rate_headers_def)

text \<open>
  The claim as first stated counts "0" among the falsy strings. It is not: a remaining
  count of "0" passes the test, and a fresh client writes the line "rate limit 0/5000".
\<close>

theorem monitor_logs_remaining_zero_counterexample:
  "checkForRateLimitInfo 1000 (ok_response (rate_headers ''0'' ''5000'') ())
     (fresh () :: (unit, unit, unit, unit) state)
   = \<lparr>world = (),
      trace = [Log Info [Lit ''rate limit '', Num (ParseFloat ''0''), Lit ''/'', Num (ParseFloat ''5000'')]
                 (Rate_limit_meta ''githubRateLimit'' (ParseFloat ''0'') (ParseFloat ''5000''))],
      throttle = \<lparr>lastEmitted = Some 1000, lastSeen = Some (ParseFloat ''0'', ParseFloat ''5000'')\<rparr>\<rparr>"
  by (simp add: checkForRateLimitInfo_def truthy_def ok_response_def rate_headers_def
      Number_parseFloat_def throttledLogRateLimitInfo_def throttle_open_def logRateLimitInfo_def
      emit_def fresh_def Let_def)

section \<open>Pagination\<close>

lemma trace_yield_all: "trace (yield_all prs s) = trace s @ map Yield prs"
  unfolding yield_all_def by (induction prs arbitrary: s) (simp_all add: emit_def)

lemma world_yield_all: "world (yield_all prs s) = world s"
  unfolding yield_all_def by (induction prs arbitrary: s) (simp_all add: emit_def)

lemma world_checkForRateLimitInfo: "world (checkForRateLimitInfo now r s) = world s"
  by (simp add: checkForRateLimitInfo_def throttledLogRateLimitInfo_def logRateLimitInfo_def
      emit_def Let_def)

lemma requests_and_yields_checkForRateLimitInfo:
  "requests_and_yields (trace (checkForRateLimitInfo now r s)) = requests_and_yields (trace s)"
  by (simp add: checkForRateLimitInfo_def throttledLogRateLimitInfo_def logRateLimitInfo_def
      emit_def Let_def requests_and_yields_def)

lemma requests_and_yields_yield_all:
  "requests_and_yields (trace (yield_all prs s)) = requests_and_yields (trace s) @ map Yield prs"
proof -
  have "filter (\<lambda>ev. is_request ev \<or> is_yield ev) (map Yield prs) = map Yield prs"
    by (induction prs) simp_all
  then show ?thesis by (simp add: trace_yield_all requests_and_yields_def)
qed

lemma fetchInitialPage_success:
  assumes "ax \<lparr>http_method = ''get'', url = ''/repos/elastic/kibana/pulls'',
               params = Some [(''state'', ''open'')], body = None\<rparr> (world s) = ((now, Inr page), w)"
  shows "\<exists>s1. fetchInitialPage ax s = (Inr page, s1) \<and> world s1 = w \<and>
           requests_and_yields (trace s1) =
             requests_and_yields (trace s) @
               [Ax \<lparr>http_method = ''get'', url = ''/repos/elastic/kibana/pulls'',
                     params = Some [(''state'', ''open'')], body = None\<rparr>]"
  using assms
  by (simp add: fetchInitialPage_def get_def req_def Let_def emit_def world_checkForRateLimitInfo
      requests_and_yields_checkForRateLimitInfo) (simp add: requests_and_yields_def)

lemma fetchNextPage_success:
  assumes "ax \<lparr>http_method = ''get'', url = u, params = None, body = None\<rparr> (world s)
             = ((now, Inr page), w)"
  shows "\<exists>s1. fetchNextPage ax u s = (Inr page, s1) \<and> world s1 = w \<and>
           requests_and_yields (trace s1) =
             requests_and_yields (trace s) @
               [Ax \<lparr>http_method = ''get'', url = u, params = None, body = None\<rparr>]"
  using assms
  by (simp add: fetchNextPage_def get_def req_def Let_def emit_def world_checkForRateLimitInfo
      requests_and_yields_checkForRateLimitInfo) (simp add: requests_and_yields_def)

text \<open>
  Claim C2. The first page answers the initial request with three records and a link
  header whose next relation is \<open>next_url\<close>; the second page answers the request for
  \<open>next_url\<close> with two records and a link header without a next relation. Then the
  traversal ends normally, and the requests and yields of its trace are, in this order:
  the initial request, the three records of page 1, one request whose url is \<open>next_url\<close>
  itself with no parameters, the two records of page 2. So there are exactly five records
  in page order and exactly two requests.
\<close>

theorem two_page_traversal:
  assumes p1: "ax \<lparr>http_method = ''get'', url = ''/repos/elastic/kibana/pulls'',
                   params = Some [(''state'', ''open'')], body = None\<rparr> (world s) = ((t1, Inr page1), w1)"
    and d1: "data page1 = [a, b, c]"
    and l1: "headers page1 ''link'' = Some h1" "h1 \<noteq> []" "parseLinkHeader h1 = Some links1"
            "links1 ''next'' = Some next_url"
    and p2: "ax \<lparr>http_method = ''get'', url = next_url, params = None, body = None\<rparr> w1
               = ((t2, Inr page2), w2)"
    and d2: "data page2 = [d, e]"
    and l2: "headers page2 ''link'' = Some h2" "h2 \<noteq> []" "parseLinkHeader h2 = Some links2"
            "links2 ''next'' = None"
  shows "\<exists>s'. ittrAllOpenPrs ax parseLinkHeader s = Some (Inr (), s') \<and>
           requests_and_yields (trace s') =
             requests_and_yields (trace s) @
               [Ax \<lparr>http_method = ''get'', url = ''/repos/elastic/kibana/pulls'',
                     params = Some [(''state'', ''open'')], body = None\<rparr>,
                Yield a, Yield b, Yield c,
                Ax \<lparr>http_method = ''get'', url = next_url, params = None, body = None\<rparr>,
                Yield d, Yield e]"
proof -
  from fetchInitialPage_success [where ax = ax, OF p1] obtain s1 where
    f1: "fetchInitialPage ax s = (Inr page1, s1)" and w1: "world s1 = w1" and
    r1: "requests_and_yields (trace s1) =
           requests_and_yields (trace s) @
             [Ax \<lparr>http_method = ''get'', url = ''/repos/elastic/kibana/pulls'',
                   params = Some [(''state'', ''open'')], body = None\<rparr>]"
    by blast
  define s2 where "s2 = yield_all (data page1) s1"
  have "world s2 = w1" by (simp add: s2_def world_yield_all w1)
  with p2 have "ax \<lparr>http_method = ''get'', url = next_url, params = None, body = None\<rparr> (world s2)
          = ((t2, Inr page2), w2)"
    by simp
  from fetchNextPage_success [where ax = ax, OF this] obtain s3 where
    f2: "fetchNextPage ax next_url s2 = (Inr page2, s3)" and
    r3: "requests_and_yields (trace s3) =
           requests_and_yields (trace s2) @
             [Ax \<lparr>http_method = ''get'', url = next_url, params = None, body = None\<rparr>]"
    by blast
  define s4 where "s4 = yield_all (data page2) s3"
  have queue_empty: "ittr_loop ax parseLinkHeader [] s4 = Some (Inr (), s4)"
    by (subst ittr_loop.simps) simp
  have second_page: "ittr_loop ax parseLinkHeader [Some next_url] s2 = Some (Inr (), s4)"
    by (subst ittr_loop.simps) (simp add: f2 l2 truthy_def Let_def s4_def [symmetric] queue_empty)
  have first_page: "ittr_loop ax parseLinkHeader [None] s = Some (Inr (), s4)"
    by (subst ittr_loop.simps) (simp add: f1 l1 truthy_def Let_def s2_def [symmetric] second_page)
  have "requests_and_yields (trace s4) =
          requests_and_yields (trace s) @
               [Ax \<lparr>http_method = ''get'', url = ''/repos/elastic/kibana/pulls'',
                     params = Some [(''state'', ''open'')], body = None\<rparr>,
                Yield a, Yield b, Yield c,
                Ax \<lparr>http_method = ''get'', url = next_url, params = None, body = None\<rparr>,
                Yield d, Yield e]"
    by (simp add: s4_def s2_def requests_and_yields_yield_all r3 r1 d1 d2)
  with first_page show ?thesis by (auto simp add: ittrAllOpenPrs_def)
qed

text \<open>
  The two demo pages: records 101 to 103, then the request for the absolute URL of the
  link header, then records 104 and 105.
\<close>

theorem two_page_traversal_witness:
  "\<exists>s'. ittrAllOpenPrs demo_server demo_parseLinkHeader (fresh () :: (unit, nat list, unit, nat) state)
          = Some (Inr (), s') \<and>
        requests_and_yields (trace s') =
          [Ax \<lparr>http_method = ''get'', url = ''/repos/elastic/kibana/pulls'',
                params = Some [(''state'', ''open'')], body = None\<rparr>,
           Yield 101, Yield 102, Yield 103,
           Ax \<lparr>http_method = ''get'',
                url = ''https://api.github.com/repositories/7833168/pulls?state=open&page=2'',
                params = None, body = None\<rparr>,
           Yield 104, Yield 105]"
proof -
  let ?s = "fresh () :: (unit, nat list, unit, nat) state"
  have ne: "demo_next_url \<noteq> ''/repos/elastic/kibana/pulls''" "demo_link1 \<noteq> []" "demo_link2 \<noteq> []"
    "demo_link2 \<noteq> demo_link1"
    by (simp_all add: demo_next_url_def demo_link1_def demo_link2_def)
  have p1: "demo_server \<lparr>http_method = ''get'', url = ''/repos/elastic/kibana/pulls'',
                   params = Some [(''state'', ''open'')], body = None\<rparr> (world ?s)
              = ((1000, Inr (ok_response [''link'' \<mapsto> demo_link1] [101, 102, 103])), ())"
    by (simp add: demo_server_def)
  have p2: "demo_server \<lparr>http_method = ''get'', url = demo_next_url, params = None, body = None\<rparr> ()
              = ((2000, Inr (ok_response [''link'' \<mapsto> demo_link2] [104, 105])), ())"
    by (simp add: demo_server_def ne)
  have "\<exists>s'. ittrAllOpenPrs demo_server demo_parseLinkHeader ?s = Some (Inr (), s') \<and>
           requests_and_yields (trace s') =
             requests_and_yields (trace ?s) @
               [Ax \<lparr>http_method = ''get'', url = ''/repos/elastic/kibana/pulls'',
                     params = Some [(''state'', ''open'')], body = None\<rparr>,
                Yield 101, Yield 102, Yield 103,
                Ax \<lparr>http_method = ''get'', url = demo_next_url, params = None, body = None\<rparr>,
                Yield 104, Yield 105]"
    by (rule two_page_traversal [where ax = demo_server and parseLinkHeader = demo_parseLinkHeader
          and ?h1.0 = demo_link1 and ?links1.0 = "[''next'' \<mapsto> demo_next_url]"
          and next_url = demo_next_url and ?h2.0 = demo_link2
          and ?links2.0 = "[''first'' \<mapsto>
                ''https://api.github.com/repositories/7833168/pulls?state=open&page=1'']",
          OF p1 _ _ _ _ _ p2])
       (simp_all add: ok_response_def demo_parseLinkHeader_def ne)
  then show ?thesis
    by (simp add: fresh_def requests_and_yields_def demo_next_url_def)
qed

text \<open>
  A page without a link header: once its records are yielded, the traversal ends with the
  error "missing link header". The state at the failure is the state after the fetch with
  every record of the page yielded in order, and nothing more: no further request is made.
\<close>

lemma missing_link_header_fails:
  assumes "(case u of Some v \<Rightarrow> fetchNextPage ax v s | None \<Rightarrow> fetchInitialPage ax s) = (Inr page, s1)"
    and "headers page ''link'' = None"
  shows "ittr_loop ax parseLinkHeader (u # rest) s =
           Some (Inl (new_Error ''missing link header''), yield_all (data page) s1)
       \<and> trace (yield_all (data page) s1) = trace s1 @ map Yield (data page)"
  using assms
  by (subst ittr_loop.simps) (simp add: Let_def truthy_def trace_yield_all)

text \<open>A first page of two records without a link header: the request, the records, the failure.\<close>

lemma missing_link_header_fails_example:
  "ittrAllOpenPrs (answer (1000, Inr (ok_response Map.empty [101, 102]))) demo_parseLinkHeader
     (fresh () :: (unit, nat list, unit, nat) state)
   = Some (Inl (new_Error ''missing link header''),
       \<lparr>world = (),
        trace = [Log Info [Lit ''fetching initial page of PRs''] No_meta,
                 Ax \<lparr>http_method = ''get'', url = ''/repos/elastic/kibana/pulls'',
                      params = Some [(''state'', ''open'')], body = None\<rparr>,
                 Yield 101, Yield 102],
        throttle = \<lparr>lastEmitted = None, lastSeen = None\<rparr>\<rparr>)"
proof -
  let ?s = "fresh () :: (unit, nat list, unit, nat) state"
  let ?s1 = "\<lparr>world = (),
        trace = [Log Info [Lit ''fetching initial page of PRs''] No_meta,
                 Ax \<lparr>http_method = ''get'', url = ''/repos/elastic/kibana/pulls'',
                      params = Some [(''state'', ''open'')], body = None\<rparr>],
        throttle = \<lparr>lastEmitted = None, lastSeen = None\<rparr>\<rparr> :: (unit, nat list, unit, nat) state"
  let ?p = "ok_response Map.empty [101, 102] :: nat list response"
  have f: "(case None of Some v \<Rightarrow> fetchNextPage (answer (1000, Inr ?p)) v ?s
             | None \<Rightarrow> fetchInitialPage (answer (1000, Inr ?p)) ?s) = (Inr ?p, ?s1)"
    by (simp add: fetchInitialPage_def get_def req_def answer_def Let_def emit_def fresh_def
        checkForRateLimitInfo_def truthy_def ok_response_def)
  have h: "headers ?p ''link'' = None" by (simp add: ok_response_def)
  show ?thesis
    using missing_link_header_fails [where parseLinkHeader = demo_parseLinkHeader
            and rest = "[]", OF f h]
    by (simp add: ittrAllOpenPrs_def ok_response_def yield_all_def emit_def)
qed

text \<open>
  Claim C3. The claim has the traversal fail, once the page's records are yielded, both for
  a page without a link header and for a page whose link header cannot be parsed. The
  first holds (above). For the second the code throws "unable to parse link header" when
  \<^verbatim>\<open>parseLinkHeader\<close> returns \<^verbatim>\<open>null\<close>; but for a non-empty header that it cannot parse,
  parse-link-header returns an object without relations, so the check does not fire: on a
  first page of two records with the link header "garbage", the two records are yielded
  and the traversal ends normally, as if this were the last page.
\<close>

theorem unparsable_link_header_ends_traversal:
  "ittrAllOpenPrs (answer (1000, Inr (ok_response [''link'' \<mapsto> ''garbage''] [101, 102])))
     demo_parseLinkHeader (fresh () :: (unit, nat list, unit, nat) state)
   = Some (Inr (),
       \<lparr>world = (),
        trace = [Log Info [Lit ''fetching initial page of PRs''] No_meta,
                 Ax \<lparr>http_method = ''get'', url = ''/repos/elastic/kibana/pulls'',
                      params = Some [(''state'', ''open'')], body = None\<rparr>,
                 Yield 101, Yield 102],
        throttle = \<lparr>lastEmitted = None, lastSeen = None\<rparr>\<rparr>)"
proof -
  let ?s = "fresh () :: (unit, nat list, unit, nat) state"
  let ?p = "ok_response [''link'' \<mapsto> ''garbage''] [101, 102] :: nat list response"
  let ?ax = "answer (1000, Inr ?p) :: (unit, nat list, unit) transport"
  let ?s2 = "\<lparr>world = (),
        trace = [Log Info [Lit ''fetching initial page of PRs''] No_meta,
                 Ax \<lparr>http_method = ''get'', url = ''/repos/elastic/kibana/pulls'',
                      params = Some [(''state'', ''open'')], body = None\<rparr>,
                 Yield 101, Yield 102],
        throttle = \<lparr>lastEmitted = None, lastSeen = None\<rparr>\<rparr> :: (unit, nat list, unit, nat) state"
  have f: "fetchInitialPage ?ax ?s =
             (Inr ?p, \<lparr>world = (),
                trace = [Log Info [Lit ''fetching initial page of PRs''] No_meta,
                         Ax \<lparr>http_method = ''get'', url = ''/repos/elastic/kibana/pulls'',
                              params = Some [(''state'', ''open'')], body = None\<rparr>],
                throttle = \<lparr>lastEmitted = None, lastSeen = None\<rparr>\<rparr>)"
    by (simp add: fetchInitialPage_def get_def req_def answer_def Let_def emit_def fresh_def
        checkForRateLimitInfo_def truthy_def ok_response_def)
  have g: "demo_parseLinkHeader ''garbage'' = Some Map.empty"
    by (simp add: demo_parseLinkHeader_def demo_link1_def demo_link2_def)
  have h: "headers ?p ''link'' = Some ''garbage''" and d: "data ?p = [101, 102]"
    by (simp_all add: ok_response_def)
  have y: "yield_all [101, 102]
             (\<lparr>world = (),
                trace = [Log Info [Lit ''fetching initial page of PRs''] No_meta,
                         Ax \<lparr>http_method = ''get'', url = ''/repos/elastic/kibana/pulls'',
                              params = Some [(''state'', ''open'')], body = None\<rparr>],
                throttle = \<lparr>lastEmitted = None, lastSeen = None\<rparr>\<rparr>
              :: (unit, nat list, unit, nat) state) = ?s2"
    by (simp add: yield_all_def emit_def)
  have queue_empty: "ittr_loop ?ax demo_parseLinkHeader [] ?s2 = Some (Inr (), ?s2)"
    by (subst ittr_loop.simps) simp
  show ?thesis
    unfolding ittrAllOpenPrs_def
    by (subst ittr_loop.simps) (simp add: f h d y g queue_empty truthy_def Let_def)
qed

section \<open>The context cache\<close>

lemma cached_run_ops:
  "cached c ctx = Some v \<Longrightarrow> \<forall>op \<in> set ops. \<not> overrides ctx op \<Longrightarrow>
     cached (run_ops f ops c) ctx = Some v"
proof (induction ops arbitrary: c)
  case Nil
  then show ?case by simp
next
  case (Cons op ops)
  show ?case
  proof (cases op)
    case (Get k)
    have "cached (snd (getGithubApi f k c)) ctx = Some v"
      using Cons.prems(1)
      by (auto simp add: getGithubApi_def makeContextCache_get_def Let_def split: option.splits)
    from Cons.IH [OF this] Cons.prems(2) Get show ?thesis by simp
  next
    case (AssignValue k w)
    with Cons.prems(2) have "k \<noteq> ctx" by auto
    then have "cached (assignGithubApi k w c) ctx = Some v"
      using Cons.prems(1) by (simp add: assignGithubApi_def makeContextCache_assignValue_def)
    from Cons.IH [OF this] Cons.prems(2) AssignValue show ?thesis by simp
  qed
qed

text \<open>
  Claim C9. The first access for a context key calls the factory once and returns what it
  built. After any access for a key, and whatever accesses for any keys and overrides for
  other keys come in between, an access for that key returns the same instance and leaves
  the cache as it is: the factory is not called. After an override for a key, likewise,
  an access for that key returns the overriding instance and the factory is not called.
\<close>

theorem context_cache_memoizes:
  fixes c :: "('k, 'c) context_cache"
  shows "(cached c ctx = None \<longrightarrow>
      getGithubApi f ctx c =
        (f ctx, c\<lparr>cached := (cached c)(ctx \<mapsto> f ctx), factory_calls := factory_calls c @ [ctx]\<rparr>))
   \<and> (\<forall>ops. (\<forall>op \<in> set ops. \<not> overrides ctx op) \<longrightarrow>
        getGithubApi f ctx (run_ops f ops (snd (getGithubApi f ctx c))) =
          (fst (getGithubApi f ctx c), run_ops f ops (snd (getGithubApi f ctx c))))
   \<and> (\<forall>ops v. (\<forall>op \<in> set ops. \<not> overrides ctx op) \<longrightarrow>
        getGithubApi f ctx (run_ops f ops (assignGithubApi ctx v c)) =
          (v, run_ops f ops (assignGithubApi ctx v c)))"
proof (intro conjI allI impI)
  assume "cached c ctx = None"
  then show "getGithubApi f ctx c =
        (f ctx, c\<lparr>cached := (cached c)(ctx \<mapsto> f ctx), factory_calls := factory_calls c @ [ctx]\<rparr>)"
    by (simp add: getGithubApi_def makeContextCache_get_def Let_def)
next
  fix ops :: "('k, 'c) cache_op list"
  assume ops: "\<forall>op \<in> set ops. \<not> overrides ctx op"
  have "cached (snd (getGithubApi f ctx c)) ctx = Some (fst (getGithubApi f ctx c))"
    by (auto simp add: getGithubApi_def makeContextCache_get_def Let_def split: option.splits)
  from cached_run_ops [OF this ops, of f]
  show "getGithubApi f ctx (run_ops f ops (snd (getGithubApi f ctx c))) =
          (fst (getGithubApi f ctx c), run_ops f ops (snd (getGithubApi f ctx c)))"
    by (simp add: getGithubApi_def makeContextCache_get_def)
next
  fix ops :: "('k, 'c) cache_op list" and v
  assume ops: "\<forall>op \<in> set ops. \<not> overrides ctx op"
  have "cached (assignGithubApi ctx v c) ctx = Some v"
    by (simp add: assignGithubApi_def makeContextCache_assignValue_def)
  from cached_run_ops [OF this ops, of f]
  show "getGithubApi f ctx (run_ops f ops (assignGithubApi ctx v c)) =
          (v, run_ops f ops (assignGithubApi ctx v c))"
    by (simp add: getGithubApi_def makeContextCache_get_def)
qed

text \<open>
  An empty cache: the first access for context 1 builds a client; after an access for
  context 2 and an override of context 2, context 1 still gets its first client and the
  factory has been called twice in all. After an override of context 1 with client 99, an
  access for context 1 returns 99 and the factory has not been called.
\<close>

theorem context_cache_memoizes_witness:
  "getGithubApi (\<lambda>ctx. ctx + 10) 1 \<lparr>cached = Map.empty, factory_calls = []\<rparr>
     = (11, \<lparr>cached = [1 \<mapsto> 11], factory_calls = [1 :: nat]\<rparr>)
   \<and> fst (getGithubApi (\<lambda>ctx. ctx + 10) 1
            (run_ops (\<lambda>ctx. ctx + 10) [Get 2, AssignValue 2 50]
               (snd (getGithubApi (\<lambda>ctx. ctx + 10) 1 \<lparr>cached = Map.empty, factory_calls = []\<rparr>))))
     = (11 :: nat)
   \<and> factory_calls (snd (getGithubApi (\<lambda>ctx. ctx + 10) 1
            (run_ops (\<lambda>ctx. ctx + 10) [Get 2, AssignValue 2 50]
               (snd (getGithubApi (\<lambda>ctx. ctx + 10) 1 \<lparr>cached = Map.empty, factory_calls = []\<rparr>)))))
     = [1 :: nat, 2]
   \<and> getGithubApi (\<lambda>ctx. ctx + 10) 1
        (assignGithubApi 1 99 \<lparr>cached = Map.empty, factory_calls = []\<rparr>)
     = (99 :: nat, \<lparr>cached = [1 \<mapsto> 99], factory_calls = ([] :: nat list)\<rparr>)"
  using context_cache_memoizes [where f = "\<lambda>ctx :: nat. ctx + 10" and ctx = 1
          and c = "\<lparr>cached = Map.empty, factory_calls = []\<rparr> :: (nat, nat) context_cache"]
  by (simp add: getGithubApi_def makeContextCache_get_def assignGithubApi_def
      makeContextCache_assignValue_def Let_def)

end
